theory Spec2Isabelle
  imports Complex_Main "HOL-Library.Word" "HOL-Library.Multiset"
begin

section \<open>JavaScript strings and values\<close>

text \<open>
  A JavaScript string is a sequence of UTF-16 code units; \<open>length\<close>, \<open>slice\<close> and
  \<open>trim\<close> all work on code units. \<open>str\<close> embeds a literal of the source whose
  characters all lie below U+0100.
\<close>

type_synonym code_unit = "16 word"
type_synonym js_string = "code_unit list"

definition str :: "string \<Rightarrow> js_string" where
  "str s = map of_char s"

text \<open>ECMAScript \<open>WhiteSpace\<close> (TAB, VT, FF, ZWNBSP and category Zs) and \<open>LineTerminator\<close>.\<close>

definition isWhiteSpace :: "code_unit \<Rightarrow> bool" where
  "isWhiteSpace c \<longleftrightarrow>
     c = 0x0009 \<or> c = 0x000B \<or> c = 0x000C \<or> c = 0x0020 \<or> c = 0x00A0 \<or> c = 0xFEFF \<or>
     c = 0x1680 \<or> (0x2000 \<le> c \<and> c \<le> 0x200A) \<or> c = 0x202F \<or> c = 0x205F \<or> c = 0x3000"

definition isLineTerminator :: "code_unit \<Rightarrow> bool" where
  "isLineTerminator c \<longleftrightarrow> c = 0x000A \<or> c = 0x000D \<or> c = 0x2028 \<or> c = 0x2029"

definition trimmable :: "code_unit \<Rightarrow> bool" where
  "trimmable c \<longleftrightarrow> isWhiteSpace c \<or> isLineTerminator c"

text \<open>\<open>String.prototype.trim\<close>: strip white space and line terminators from both ends.\<close>

definition trim :: "js_string \<Rightarrow> js_string" where
  "trim s = rev (dropWhile trimmable (rev (dropWhile trimmable s)))"

text \<open>
  \<open>String.prototype.toWellFormed\<close>: a high surrogate followed by a low one is kept as a
  pair, every other surrogate code unit is replaced by U+FFFD.
\<close>

definition isHighSurrogate :: "code_unit \<Rightarrow> bool" where
  "isHighSurrogate c \<longleftrightarrow> 0xD800 \<le> c \<and> c \<le> 0xDBFF"

definition isLowSurrogate :: "code_unit \<Rightarrow> bool" where
  "isLowSurrogate c \<longleftrightarrow> 0xDC00 \<le> c \<and> c \<le> 0xDFFF"

fun toWellFormed :: "js_string \<Rightarrow> js_string" where
  "toWellFormed [] = []"
| "toWellFormed [c] = (if isHighSurrogate c \<or> isLowSurrogate c then [0xFFFD] else [c])"
| "toWellFormed (c # d # cs) =
     (if isHighSurrogate c \<and> isLowSurrogate d then c # d # toWellFormed cs
      else if isHighSurrogate c \<or> isLowSurrogate c then 0xFFFD # toWellFormed (d # cs)
      else c # toWellFormed (d # cs))"

text \<open>\<open>String.prototype.includes\<close>.\<close>

fun js_includes :: "js_string \<Rightarrow> js_string \<Rightarrow> bool" where
  "js_includes [] needle = (needle = [])"
| "js_includes (c # cs) needle = (take (length needle) (c # cs) = needle \<or> js_includes cs needle)"

text \<open>\<open>Array.prototype.slice(-n)\<close>: the last \<open>n\<close> elements, the whole array when it is shorter.\<close>

definition slice_last :: "nat \<Rightarrow> 'a list \<Rightarrow> 'a list" where
  "slice_last n xs = drop (length xs - n) xs"

text \<open>
  What a field of a parsed JSON body can hold at run time. \<open>JOther\<close> stands for the
  values that have no \<open>trim\<close> method (numbers, booleans, arrays, objects).
\<close>

datatype js_value = JUndefined | JNull | JString js_string | JOther

datatype sqlite_code = SQLITE_CONSTRAINT_FOREIGNKEY | SQLITE_CONSTRAINT_PRIMARYKEY

datatype js_error = TypeError | SqliteError sqlite_code | APIError

text \<open>\<open>v ?? ""\<close>: only \<open>undefined\<close> and \<open>null\<close> are replaced.\<close>

definition nullish_or_empty :: "js_value \<Rightarrow> js_value" where
  "nullish_or_empty v = (case v of JUndefined \<Rightarrow> JString [] | JNull \<Rightarrow> JString [] | _ \<Rightarrow> v)"

text \<open>\<open>rawMessage.trim()\<close>: a TypeError on a value without that method.\<close>

definition call_trim :: "js_value \<Rightarrow> js_error + js_string" where
  "call_trim v = (case v of JString s \<Rightarrow> Inr (trim s) | _ \<Rightarrow> Inl TypeError)"

text \<open>Truthiness of an optional string: \<open>undefined\<close> and \<open>""\<close> are falsy.\<close>

definition truthy :: "js_string option \<Rightarrow> bool" where
  "truthy v = (case v of None \<Rightarrow> False | Some s \<Rightarrow> s \<noteq> [])"


section \<open>Persistence: the two tables of \<open>migrate.ts\<close>\<close>

text \<open>
  The storage engine (SQLite, driven through better-sqlite3) is not among the sources; the
  tables are those created by \<open>migrate.ts\<close>, with the constraints declared there.
  A string handed to a statement is bound as UTF-8 text, which turns every unpaired
  surrogate into U+FFFD, and a TEXT column is read back as the string that was bound:
  what is stored, compared and returned is \<open>toWellFormed\<close> of the JavaScript string.
\<close>

record conversation =
  c_id :: js_string
  c_created_at :: int

record message =
  m_id :: nat
  m_conversation_id :: js_string
  m_sender :: js_string
  m_text :: js_string
  m_created_at :: int

text \<open>
  \<open>messages\<close> is kept in insertion (rowid) order; \<open>seq\<close> is the AUTOINCREMENT counter of
  the \<open>messages\<close> table (the largest rowid ever handed out).
\<close>

record database =
  conversations :: "conversation list"
  messages :: "message list"
  seq :: nat

definition conversation_ids :: "database \<Rightarrow> js_string set" where
  "conversation_ids d = set (map c_id (conversations d))"

text \<open>
  \<open>INSERT INTO conversations (id, created_at) VALUES (?, ?)\<close>;
  \<open>id\<close> is the PRIMARY KEY, so a second row with the same id is refused.
\<close>

definition insert_conversation :: "database \<Rightarrow> js_string \<Rightarrow> int \<Rightarrow> js_error + database" where
  "insert_conversation d sid created =
     (if toWellFormed sid \<in> conversation_ids d then Inl (SqliteError SQLITE_CONSTRAINT_PRIMARYKEY)
      else Inr (d\<lparr>conversations := conversations d @
                   [\<lparr>c_id = toWellFormed sid, c_created_at = created\<rparr>]\<rparr>))"

definition next_rowid :: "database \<Rightarrow> nat" where
  "next_rowid d = Suc (fold max (map m_id (messages d)) (seq d))"

text \<open>
  Modelled from the spec: the engine that executes
  \<open>INSERT INTO messages (conversation_id, sender, text, created_at) VALUES (?, ?, ?, ?)\<close>
  is missing from the sources. Section 4.1 gives the contract of \<open>appendMessage\<close>: it appends
  one message, returns its identifier, and fails with a constraint violation if the
  conversation identifier does not reference an existing conversation; \<open>migrate.ts\<close>
  declares that reference, \<open>FOREIGN KEY (conversation_id) REFERENCES conversations(id)\<close>,
  and the AUTOINCREMENT key. \<open>run\<close> returns the new rowid (\<open>lastInsertRowid\<close>), the
  successor of the largest one in use or ever handed out.
\<close>

definition insert_message ::
  "database \<Rightarrow> js_string \<Rightarrow> js_string \<Rightarrow> js_string \<Rightarrow> int \<Rightarrow> js_error + (database \<times> nat)" where
  "insert_message d sid sndr txt created =
     (if toWellFormed sid \<notin> conversation_ids d then Inl (SqliteError SQLITE_CONSTRAINT_FOREIGNKEY)
      else let rowid = next_rowid d in
        Inr (d\<lparr>messages := messages d @
                 [\<lparr>m_id = rowid, m_conversation_id = toWellFormed sid,
                   m_sender = toWellFormed sndr, m_text = toWellFormed txt,
                   m_created_at = created\<rparr>],
               seq := rowid\<rparr>, rowid))"

text \<open>\<open>SELECT id, created_at FROM conversations WHERE id = ?\<close> with \<open>get\<close>: the first match.\<close>

definition select_conversation :: "database \<Rightarrow> js_string \<Rightarrow> conversation option" where
  "select_conversation d sid = find (\<lambda>c. c_id c = toWellFormed sid) (conversations d)"

text \<open>
  \<open>... FROM messages WHERE conversation_id = ? ORDER BY created_at ASC\<close>. Rows with the
  same timestamp come out in rowid order (\<open>sort_key\<close> is stable).
\<close>

definition messages_of :: "database \<Rightarrow> js_string \<Rightarrow> message list" where
  "messages_of d sid =
     sort_key m_created_at (filter (\<lambda>m. m_conversation_id m = toWellFormed sid) (messages d))"

record history_row =
  hr_sender :: js_string
  hr_text :: js_string

text \<open>
  \<open>SELECT sender, text FROM messages WHERE conversation_id = ?
    ORDER BY created_at ASC LIMIT 20\<close>.
\<close>

definition select_history :: "database \<Rightarrow> js_string \<Rightarrow> history_row list" where
  "select_history d sid =
     map (\<lambda>m. \<lparr>hr_sender = m_sender m, hr_text = m_text m\<rparr>) (take 20 (messages_of d sid))"

record history_entry =
  he_sender :: js_string
  he_text :: js_string
  he_created_at :: int

text \<open>\<open>SELECT sender, text, created_at FROM messages WHERE conversation_id = ? ORDER BY created_at ASC\<close>.\<close>

definition select_messages :: "database \<Rightarrow> js_string \<Rightarrow> history_entry list" where
  "select_messages d sid =
     map (\<lambda>m. \<lparr>he_sender = m_sender m, he_text = m_text m, he_created_at = m_created_at m\<rparr>)
       (messages_of d sid)"


section \<open>The reply generator (\<open>llm.ts\<close>)\<close>

datatype role = System | User | Assistant

text \<open>\<open>ChatMessage\<close>; its TypeScript type admits the roles \<open>user\<close> and \<open>assistant\<close> only.\<close>

record ChatMessage =
  role :: role
  content :: js_string

record chat_request =
  model :: js_string
  request_messages :: "ChatMessage list"
  max_tokens :: nat
  temperature :: rat

text \<open>
  The provider's answer: \<open>choices\<close> is \<open>None\<close> when the property is missing from a
  malformed response; a choice may lack its message, a message its content (\<open>null\<close>).
\<close>

datatype completion_message = CompletionMessage "js_string option"

datatype choice = Choice "completion_message option"

record completion =
  choices :: "choice list option"

text \<open>
  \<open>openai.chat.completions.create\<close>: the awaited promise rejects (\<open>Inl\<close>) or resolves.
\<close>

type_synonym openai_client = "chat_request \<Rightarrow> js_error + completion"

text \<open>
  The module-level state of \<open>llm.ts\<close>: the client created at load time when the key was
  set, and the environment variable as read at call time.
\<close>

record llm_env =
  openai :: "openai_client option"
  OPENAI_API_KEY :: "js_string option"

definition nl :: js_string where
  "nl = [0x000A]"

definition SYSTEM_PROMPT :: js_string where
  "SYSTEM_PROMPT = nl @
     str ''You are a helpful support agent for a small e-commerce store called Spur Store.'' @ nl @
     str ''Answer clearly and concisely in 2-4 sentences.'' @ nl @ nl @
     str ''Store FAQs:'' @ nl @
     str ''- Shipping: We ship worldwide. Standard shipping takes 5-7 business days within the country and 7-14 business days for international orders.'' @ nl @
     str ''- Returns: We accept returns within 30 days of delivery for unused items in original packaging. Refunds are processed within 5-7 business days after we receive the returned item.'' @ nl @
     str ''- Refunds: Refunds are issued to the original payment method only.'' @ nl @
     str ''- Support Hours: Our live support is available Monday to Friday, 9am'' @ [0x2013] @
     str ''6pm IST. You can email us any time at support@spurstore.test.'' @ nl @ nl @
     str ''If you are unsure or the user asks something unrelated to shopping, politely say you are a simple support bot and suggest contacting human support.'' @ nl"

definition reply_key_missing :: js_string where
  "reply_key_missing = str ''Our AI agent is currently unavailable because the API key is not configured. Please contact human support at support@spurstore.test.''"

definition reply_no_content :: js_string where
  "reply_no_content = str ''Sorry, I couldn't generate a response just now. Please try again.''"

definition reply_llm_error :: js_string where
  "reply_llm_error = str ''Sorry, our AI agent ran into a problem. Please try again in a moment or contact human support at support@spurstore.test.''"

text \<open>The \<open>messages\<close> array built for the provider.\<close>

definition build_messages :: "ChatMessage list \<Rightarrow> js_string \<Rightarrow> ChatMessage list" where
  "build_messages history userMessage =
     (let truncatedUserMessage =
            (if length userMessage > 1000 then take 1000 userMessage else userMessage)
      in [\<lparr>role = System, content = SYSTEM_PROMPT\<rparr>] @
         slice_last 10 history @
         [\<lparr>role = User, content = truncatedUserMessage\<rparr>])"

definition build_request :: "ChatMessage list \<Rightarrow> js_string \<Rightarrow> chat_request" where
  "build_request history userMessage =
     \<lparr>model = str ''gpt-4o-mini'', request_messages = build_messages history userMessage,
      max_tokens = 200, temperature = 4 / 10\<rparr>"

text \<open>\<open>response.choices[0]?.message?.content\<close>; indexing a missing \<open>choices\<close> throws.\<close>

definition first_content :: "completion \<Rightarrow> js_error + js_string option" where
  "first_content response =
     (case choices response of
        None \<Rightarrow> Inl TypeError
      | Some [] \<Rightarrow> Inr None
      | Some (Choice None # _) \<Rightarrow> Inr None
      | Some (Choice (Some (CompletionMessage c)) # _) \<Rightarrow> Inr c)"

text \<open>The body of the \<open>try\<close> block.\<close>

definition request_completion :: "openai_client \<Rightarrow> chat_request \<Rightarrow> js_error + js_string" where
  "request_completion client req =
     (case client req of
        Inl err \<Rightarrow> Inl err
      | Inr response \<Rightarrow>
          (case first_content response of
             Inl err \<Rightarrow> Inl err
           | Inr None \<Rightarrow> Inr reply_no_content
           | Inr (Some reply) \<Rightarrow> Inr reply))"

text \<open>
  \<open>generateReply\<close>. The result is a sum so that an exception escaping to the caller would be
  a value \<open>Inl\<close>; the \<open>catch\<close> clause turns every error of the \<open>try\<close> block into a reply.
\<close>

definition generateReply :: "llm_env \<Rightarrow> ChatMessage list \<Rightarrow> js_string \<Rightarrow> js_error + js_string" where
  "generateReply env history userMessage =
     (case openai env of
        None \<Rightarrow> Inr reply_key_missing
      | Some client \<Rightarrow>
          if \<not> truthy (OPENAI_API_KEY env) then Inr reply_key_missing
          else (case request_completion client (build_request history userMessage) of
                  Inl err \<Rightarrow> Inr reply_llm_error
                | Inr reply \<Rightarrow> Inr reply))"


section \<open>The HTTP handlers (\<open>index.ts\<close>)\<close>

datatype response_body =
    ErrorBody js_string
  | ReplyBody js_string js_string
  | HistoryBody js_string int "history_entry list"

record response =
  status :: nat
  body :: response_body

record ChatRequestBody =
  message :: js_value
  sessionId :: "js_string option"

text \<open>What one request reads from outside: \<open>randomUUID()\<close> and the two \<open>Date.now()\<close> calls.\<close>

record ambient =
  randomUUID :: js_string
  now_first :: int
  now_second :: int

text \<open>
  The server state: the database, and a log of the writes and generator calls in the order
  the handler performs them.
\<close>

datatype event =
    ConversationInserted js_string
  | MessageInserted js_string js_string js_string
  | GenerateReplyCalled "ChatMessage list" js_string

record world =
  db :: database
  trace :: "event list"

definition error_empty :: js_string where
  "error_empty = str ''Message cannot be empty.''"

definition error_too_long :: js_string where
  "error_too_long = str ''Message is too long. Please keep it under 4000 characters so our agent can handle it.''"

definition error_post_failed :: js_string where
  "error_post_failed = str ''Something went wrong on our side while processing your message. Please try again in a moment.''"

definition error_not_found :: js_string where
  "error_not_found = str ''Conversation not found.''"

definition run_insert_conversation :: "world \<Rightarrow> js_string \<Rightarrow> int \<Rightarrow> js_error + world" where
  "run_insert_conversation w sid created =
     (case insert_conversation (db w) sid created of
        Inl err \<Rightarrow> Inl err
      | Inr d \<Rightarrow> Inr (w\<lparr>db := d, trace := trace w @ [ConversationInserted sid]\<rparr>))"

definition run_insert_message ::
  "world \<Rightarrow> js_string \<Rightarrow> js_string \<Rightarrow> js_string \<Rightarrow> int \<Rightarrow> js_error + world" where
  "run_insert_message w sid sndr txt created =
     (case insert_message (db w) sid sndr txt created of
        Inl err \<Rightarrow> Inl err
      | Inr (d, rowid) \<Rightarrow> Inr (w\<lparr>db := d, trace := trace w @ [MessageInserted sid sndr txt]\<rparr>))"

text \<open>
  "Create conversation if needed": \<open>!sessionId\<close> holds for a missing and for an empty
  identifier.
\<close>

definition create_conversation :: "ambient \<Rightarrow> world \<Rightarrow> js_error + (world \<times> js_string)" where
  "create_conversation amb w =
     (case run_insert_conversation w (randomUUID amb) (now_first amb) of
        Inl err \<Rightarrow> Inl err
      | Inr w' \<Rightarrow> Inr (w', randomUUID amb))"

definition resolve_session ::
  "ambient \<Rightarrow> world \<Rightarrow> js_string option \<Rightarrow> js_error + (world \<times> js_string)" where
  "resolve_session amb w supplied =
     (case supplied of
        None \<Rightarrow> create_conversation amb w
      | Some sid \<Rightarrow> if sid = [] then create_conversation amb w else Inr (w, sid))"

definition to_chat_message :: "history_row \<Rightarrow> ChatMessage" where
  "to_chat_message row =
     \<lparr>role = (if hr_sender row = str ''user'' then User else Assistant), content = hr_text row\<rparr>"

text \<open>
  From "Insert user message" to the response. Writes made before an exception stay: the
  state returned with \<open>Inl\<close> is the state at the point of failure.
\<close>

definition converse ::
  "llm_env \<Rightarrow> ambient \<Rightarrow> world \<Rightarrow> js_string \<Rightarrow> js_string \<Rightarrow> world \<times> (js_error + response)" where
  "converse env amb w sid msg =
     (case run_insert_message w sid (str ''user'') msg (now_first amb) of
        Inl err \<Rightarrow> (w, Inl err)
      | Inr w1 \<Rightarrow>
          let history = map to_chat_message (select_history (db w1) sid);
              w2 = w1\<lparr>trace := trace w1 @ [GenerateReplyCalled history msg]\<rparr>
          in (case generateReply env history msg of
                Inl err \<Rightarrow> (w2, Inl err)
              | Inr replyText \<Rightarrow>
                  (case run_insert_message w2 sid (str ''ai'') replyText (now_second amb) of
                     Inl err \<Rightarrow> (w2, Inl err)
                   | Inr w3 \<Rightarrow> (w3, Inr \<lparr>status = 200, body = ReplyBody replyText sid\<rparr>))))"

text \<open>The \<open>try\<close> block of \<open>POST /chat/message\<close>.\<close>

definition post_chat_message_try ::
  "llm_env \<Rightarrow> ambient \<Rightarrow> world \<Rightarrow> ChatRequestBody \<Rightarrow> world \<times> (js_error + response)" where
  "post_chat_message_try env amb w req =
     (case call_trim (nullish_or_empty (message req)) of
        Inl err \<Rightarrow> (w, Inl err)
      | Inr msg \<Rightarrow>
          if msg = [] then (w, Inr \<lparr>status = 400, body = ErrorBody error_empty\<rparr>)
          else if length msg > 4000 then (w, Inr \<lparr>status = 400, body = ErrorBody error_too_long\<rparr>)
          else (case resolve_session amb w (sessionId req) of
                  Inl err \<Rightarrow> (w, Inl err)
                | Inr (w', sid) \<Rightarrow> converse env amb w' sid msg))"

text \<open>\<open>POST /chat/message\<close>: the \<open>catch\<close> clause answers 500 for any exception.\<close>

definition post_chat_message ::
  "llm_env \<Rightarrow> ambient \<Rightarrow> world \<Rightarrow> ChatRequestBody \<Rightarrow> world \<times> response" where
  "post_chat_message env amb w req =
     (case post_chat_message_try env amb w req of
        (w', Inr res) \<Rightarrow> (w', res)
      | (w', Inl err) \<Rightarrow> (w', \<lparr>status = 500, body = ErrorBody error_post_failed\<rparr>))"

text \<open>\<open>GET /chat/history/:sessionId\<close>; it only reads.\<close>

definition get_chat_history :: "world \<Rightarrow> js_string \<Rightarrow> world \<times> response" where
  "get_chat_history w sid =
     (case select_conversation (db w) sid of
        None \<Rightarrow> (w, \<lparr>status = 404, body = ErrorBody error_not_found\<rparr>)
      | Some conv \<Rightarrow>
          (w, \<lparr>status = 200,
               body = HistoryBody sid (c_created_at conv) (select_messages (db w) sid)\<rparr>))"


section \<open>Vocabulary of the statements\<close>

text \<open>
  The session of a request resolves when the handler can attach messages to it: a supplied
  identifier names a stored conversation, or the freshly drawn identifier is not taken yet
  (identifiers as the store compares them).
\<close>

definition session_resolves :: "ambient \<Rightarrow> world \<Rightarrow> js_string option \<Rightarrow> bool" where
  "session_resolves amb w supplied =
     (case supplied of
        None \<Rightarrow> toWellFormed (randomUUID amb) \<notin> conversation_ids (db w)
      | Some sid \<Rightarrow>
          if sid = [] then toWellFormed (randomUUID amb) \<notin> conversation_ids (db w)
          else toWellFormed sid \<in> conversation_ids (db w))"

text \<open>The identifier the handler works with.\<close>

definition session_of :: "ambient \<Rightarrow> js_string option \<Rightarrow> js_string" where
  "session_of amb supplied =
     (case supplied of
        None \<Rightarrow> randomUUID amb
      | Some sid \<Rightarrow> if sid = [] then randomUUID amb else sid)"

text \<open>The conversation row a request writes before its messages, if any.\<close>

definition session_events :: "ambient \<Rightarrow> js_string option \<Rightarrow> event list" where
  "session_events amb supplied =
     (case supplied of
        None \<Rightarrow> [ConversationInserted (randomUUID amb)]
      | Some sid \<Rightarrow> if sid = [] then [ConversationInserted (randomUUID amb)] else [])"

text \<open>
  The generator could not obtain a reply: no client or no key, a rejected call, a response
  without \<open>choices\<close>, or a first choice without content.
\<close>

definition generation_fails :: "llm_env \<Rightarrow> ChatMessage list \<Rightarrow> js_string \<Rightarrow> bool" where
  "generation_fails env history userMessage =
     (case openai env of
        None \<Rightarrow> True
      | Some client \<Rightarrow>
          \<not> truthy (OPENAI_API_KEY env) \<or>
          (case client (build_request history userMessage) of
             Inl err \<Rightarrow> True
           | Inr response \<Rightarrow>
               (case first_content response of Inl err \<Rightarrow> True | Inr None \<Rightarrow> True | Inr (Some c) \<Rightarrow> False)))"

text \<open>The provider answered, and the content of its first choice is the empty string.\<close>

definition answers_empty_content :: "llm_env \<Rightarrow> ChatMessage list \<Rightarrow> js_string \<Rightarrow> bool" where
  "answers_empty_content env history userMessage =
     (case openai env of
        None \<Rightarrow> False
      | Some client \<Rightarrow>
          truthy (OPENAI_API_KEY env) \<and>
          (case client (build_request history userMessage) of
             Inl err \<Rightarrow> False
           | Inr response \<Rightarrow> first_content response = Inr (Some [])))"

text \<open>A stored message as the history response shows it, and as the generator is given it.\<close>

definition entry_of :: "message \<Rightarrow> history_entry" where
  "entry_of m = \<lparr>he_sender = m_sender m, he_text = m_text m, he_created_at = m_created_at m\<rparr>"

definition chat_of :: "message \<Rightarrow> ChatMessage" where
  "chat_of m = to_chat_message \<lparr>hr_sender = m_sender m, hr_text = m_text m\<rparr>"

text \<open>The context a logged generator call passes on to the provider.\<close>

fun generator_context :: "event \<Rightarrow> ChatMessage list option" where
  "generator_context (GenerateReplyCalled history userMessage) = Some (slice_last 10 history)"
| "generator_context (ConversationInserted sid) = None"
| "generator_context (MessageInserted sid sndr txt) = None"


subsection \<open>Concrete instances\<close>

text \<open>
  A fresh server, a server holding one conversation of one exchange, a generator without
  credential, a provider that answers without any choice, one whose call is rejected, one
  whose answer lacks \<open>choices\<close>, one whose answer has the empty string as content, and the
  readings of one request.
\<close>

definition empty_world :: world where
  "empty_world = \<lparr>db = \<lparr>conversations = [], messages = [], seq = 0\<rparr>, trace = []\<rparr>"

definition small_world :: world where
  "small_world =
     \<lparr>db = \<lparr>conversations = [\<lparr>c_id = str ''s1'', c_created_at = 100\<rparr>],
            messages = [\<lparr>m_id = 1, m_conversation_id = str ''s1'', m_sender = str ''user'',
                          m_text = str ''hi'', m_created_at = 100\<rparr>,
                        \<lparr>m_id = 2, m_conversation_id = str ''s1'', m_sender = str ''ai'',
                          m_text = str ''hello'', m_created_at = 101\<rparr>],
            seq = 2\<rparr>,
      trace = []\<rparr>"

definition offline :: llm_env where
  "offline = \<lparr>openai = None, OPENAI_API_KEY = None\<rparr>"

definition silent_provider :: llm_env where
  "silent_provider =
     \<lparr>openai = Some (\<lambda>req. Inr \<lparr>choices = Some []\<rparr>), OPENAI_API_KEY = Some (str ''sk-test'')\<rparr>"

definition unreachable_provider :: llm_env where
  "unreachable_provider =
     \<lparr>openai = Some (\<lambda>req. Inl APIError), OPENAI_API_KEY = Some (str ''sk-test'')\<rparr>"

definition garbled_provider :: llm_env where
  "garbled_provider =
     \<lparr>openai = Some (\<lambda>req. Inr \<lparr>choices = None\<rparr>), OPENAI_API_KEY = Some (str ''sk-test'')\<rparr>"

definition mute_provider :: llm_env where
  "mute_provider =
     \<lparr>openai = Some (\<lambda>req. Inr \<lparr>choices = Some [Choice (Some (CompletionMessage (Some [])))]\<rparr>),
      OPENAI_API_KEY = Some (str ''sk-test'')\<rparr>"

definition clock :: "int \<Rightarrow> int \<Rightarrow> ambient" where
  "clock t1 t2 = \<lparr>randomUUID = str ''u1'', now_first = t1, now_second = t2\<rparr>"

text \<open>
  A conversation of 25 exchanges: 50 stored turns, turn \<open>i\<close> written at time \<open>i\<close> with the
  one-character text of code \<open>i\<close>; and a provider that answers with the texts of the context
  turns it was sent (the request without its system prompt and its final user message).
\<close>

definition stored_turn :: "nat \<Rightarrow> message" where
  "stored_turn i =
     \<lparr>m_id = i, m_conversation_id = str ''s1'',
      m_sender = (if odd i then str ''user'' else str ''ai''),
      m_text = [of_nat i], m_created_at = int i\<rparr>"

definition long_conversation :: world where
  "long_conversation =
     \<lparr>db = \<lparr>conversations = [\<lparr>c_id = str ''s1'', c_created_at = 0\<rparr>],
            messages = map stored_turn [1..<51], seq = 50\<rparr>,
      trace = []\<rparr>"

definition echo_provider :: llm_env where
  "echo_provider =
     \<lparr>openai = Some (\<lambda>req. Inr \<lparr>choices = Some [Choice (Some (CompletionMessage
                 (Some (concat (map content (butlast (tl (request_messages req))))))))]\<rparr>),
      OPENAI_API_KEY = Some (str ''sk-test'')\<rparr>"


section \<open>Auxiliary facts\<close>

subsection \<open>Trimming\<close>

lemma trim_keeps:
  assumes "s \<noteq> []" "\<not> trimmable (hd s)" "\<not> trimmable (last s)"
  shows "trim s = s"
proof -
  from assms have a: "dropWhile trimmable s = s"
    by (cases s) simp_all
  from assms have "dropWhile trimmable (rev s) = rev s"
    by (cases "rev s") (simp_all add: hd_rev)
  with a show ?thesis by (simp add: trim_def)
qed

lemma trim_append_ws:
  assumes "\<forall>c\<in>set ws. trimmable c" "s \<noteq> []" "\<not> trimmable (last s)"
  shows "trim (s @ ws) = trim s"
proof -
  have "dropWhile trimmable (rev ws @ rev (dropWhile trimmable s)) 
        = dropWhile trimmable (rev (dropWhile trimmable s))"
    using assms(1) by (simp add: dropWhile_append)
  moreover have "dropWhile trimmable (s @ ws) = dropWhile trimmable s @ ws"
  proof -
    have "last s \<in> set s" using assms(2) by simp
    then show ?thesis using assms(3) by (rule dropWhile_append1)
  qed
  ultimately show ?thesis by (simp add: trim_def)
qed

lemma trim_replicate_a: "0 < n \<Longrightarrow> trim (replicate n (0x0061::code_unit)) = replicate n 0x0061"
  by (rule trim_keeps) (simp_all add: trimmable_def isWhiteSpace_def isLineTerminator_def hd_replicate)

lemma trim_a_spaces: "trim (0x0061 # replicate n 0x0020) = [0x0061]"
proof -
  have "trim ([0x0061] @ replicate n 0x0020) = trim [0x0061]"
    by (rule trim_append_ws) (simp_all add: trimmable_def isWhiteSpace_def isLineTerminator_def)
  then show ?thesis
    by (simp add: trim_def trimmable_def isWhiteSpace_def isLineTerminator_def)
qed

subsection \<open>Text as the store keeps it\<close>

lemma unat_of_char: "unat (of_char c :: code_unit) = of_char c"
proof -
  have "unat (of_nat (of_char c) :: code_unit) = of_char c mod 2 ^ 16"
    by (simp add: unat_of_nat)
  moreover have "(of_char c :: nat) < 256"
    by (rule nat_of_char_less_256)
  then have "(of_char c :: nat) < 65536"
    by arith
  then have "(of_char c :: nat) mod 65536 = of_char c"
    by (rule mod_less)
  ultimately show ?thesis by (simp add: of_nat_of_char)
qed

lemma of_char_no_surrogate:
  "\<not> isHighSurrogate (of_char c)" "\<not> isLowSurrogate (of_char c)"
proof -
  have "(of_char c :: nat) < 256"
    by (rule nat_of_char_less_256)
  then have "\<not> 55296 \<le> (of_char c :: nat)" "\<not> 56320 \<le> (of_char c :: nat)"
    by arith+
  then show "\<not> isHighSurrogate (of_char c)" "\<not> isLowSurrogate (of_char c)"
    by (simp_all add: isHighSurrogate_def isLowSurrogate_def word_le_nat_alt unat_of_char)
qed

lemma toWellFormed_plain:
  "\<forall>c\<in>set s. \<not> isHighSurrogate c \<and> \<not> isLowSurrogate c \<Longrightarrow> toWellFormed s = s"
  by (induction s rule: toWellFormed.induct) simp_all

lemma toWellFormed_str: "toWellFormed (str s) = str s"
  by (rule toWellFormed_plain) (auto simp add: str_def of_char_no_surrogate)

lemma toWellFormed_fallbacks:
  "toWellFormed reply_key_missing = reply_key_missing"
  "toWellFormed reply_no_content = reply_no_content"
  "toWellFormed reply_llm_error = reply_llm_error"
  by (simp_all add: reply_key_missing_def reply_no_content_def reply_llm_error_def
      toWellFormed_str)

subsection \<open>Row identifiers, the generator, one exchange\<close>

lemma fold_max_lower: "(a::nat) \<le> fold max xs a"
  by (induction xs arbitrary: a) (auto intro: order_trans [OF max.cobounded2])

lemma fold_max_upper: "x \<in> set xs \<Longrightarrow> (x::nat) \<le> fold max xs a"
proof (induction xs arbitrary: a)
  case Nil
  then show ?case by simp
next
  case (Cons y ys)
  show ?case
  proof (cases "x = y")
    case True
    have "max y a \<le> fold max ys (max y a)" by (rule fold_max_lower)
    with True show ?thesis by simp
  next
    case False
    with Cons show ?thesis by simp
  qed
qed

lemma next_rowid_fresh: "next_rowid d \<notin> m_id ` set (messages d)"
proof
  assume "next_rowid d \<in> m_id ` set (messages d)"
  then have "next_rowid d \<in> set (map m_id (messages d))" by simp
  then have "next_rowid d \<le> fold max (map m_id (messages d)) (seq d)"
    by (rule fold_max_upper)
  then show False by (simp add: next_rowid_def)
qed

lemma slice_last_bound: "length (slice_last n xs) \<le> n"
  by (simp add: slice_last_def)

lemma generateReply_returns: "\<exists>reply. generateReply env history userMessage = Inr reply"
  by (simp add: generateReply_def split: option.split sum.split)

lemma generateReply_fallback:
  "generation_fails env history userMessage \<Longrightarrow>
   generateReply env history userMessage \<in> Inr ` {reply_key_missing, reply_no_content, reply_llm_error}"
  by (auto simp add: generateReply_def generation_fails_def request_completion_def
      split: option.splits sum.splits)

lemma fallbacks_nonempty:
  "reply_key_missing \<noteq> []" "reply_no_content \<noteq> []" "reply_llm_error \<noteq> []"
  by (simp_all add: reply_key_missing_def reply_no_content_def reply_llm_error_def str_def)

lemma generateReply_nonempty:
  assumes "\<not> answers_empty_content env history userMessage"
    and "generateReply env history userMessage = Inr reply"
  shows "reply \<noteq> []"
proof (cases "generation_fails env history userMessage")
  case True
  then have "generateReply env history userMessage \<in>
               Inr ` {reply_key_missing, reply_no_content, reply_llm_error}"
    by (rule generateReply_fallback)
  with assms(2) show ?thesis using fallbacks_nonempty by auto
next
  case False
  with assms show ?thesis
    by (auto simp add: generateReply_def generation_fails_def answers_empty_content_def
        request_completion_def split: option.splits sum.splits if_splits)
qed

lemma run_insert_message_ok:
  assumes "toWellFormed sid \<in> conversation_ids (db w)"
  shows "run_insert_message w sid sndr txt created =
           Inr (w\<lparr>db := (db w)\<lparr>messages := messages (db w) @
                     [\<lparr>m_id = next_rowid (db w), m_conversation_id = toWellFormed sid,
                       m_sender = toWellFormed sndr, m_text = toWellFormed txt,
                       m_created_at = created\<rparr>],
                   seq := next_rowid (db w)\<rparr>,
                 trace := trace w @ [MessageInserted sid sndr txt]\<rparr>)"
  using assms by (simp add: run_insert_message_def insert_message_def Let_def)

lemma run_insert_message_refused:
  assumes "toWellFormed sid \<notin> conversation_ids (db w)"
  shows "run_insert_message w sid sndr txt created = Inl (SqliteError SQLITE_CONSTRAINT_FOREIGNKEY)"
  using assms by (simp add: run_insert_message_def insert_message_def)

lemma converse_ok:
  assumes "toWellFormed sid \<in> conversation_ids (db w)"
  obtains w' reply history u a where
    "converse env amb w sid msg = (w', Inr \<lparr>status = 200, body = ReplyBody reply sid\<rparr>)"
    "generateReply env history msg = Inr reply"
    "history = map chat_of (take 20 (sort_key m_created_at
                 (filter (\<lambda>m. m_conversation_id m = toWellFormed sid) (messages (db w) @ [u]))))"
    "messages (db w') = messages (db w) @ [u, a]"
    "conversations (db w') = conversations (db w)"
    "trace w' = trace w @ [MessageInserted sid (str ''user'') msg,
                           GenerateReplyCalled history msg,
                           MessageInserted sid (str ''ai'') reply]"
    "m_conversation_id u = toWellFormed sid" "m_sender u = str ''user''"
    "m_text u = toWellFormed msg" "m_created_at u = now_first amb"
    "m_conversation_id a = toWellFormed sid" "m_sender a = str ''ai''"
    "m_text a = toWellFormed reply" "m_created_at a = now_second amb"
proof -
  define u where "u = \<lparr>m_id = next_rowid (db w), m_conversation_id = toWellFormed sid,
                       m_sender = str ''user'', m_text = toWellFormed msg,
                       m_created_at = now_first amb\<rparr>"
  define w1 where "w1 = w\<lparr>db := (db w)\<lparr>messages := messages (db w) @ [u],
                   seq := next_rowid (db w)\<rparr>,
                 trace := trace w @ [MessageInserted sid (str ''user'') msg]\<rparr>"
  define history where "history = map to_chat_message (select_history (db w1) sid)"
  define w2 where "w2 = w1\<lparr>trace := trace w1 @ [GenerateReplyCalled history msg]\<rparr>"
  obtain reply where r: "generateReply env history msg = Inr reply"
    using generateReply_returns by blast
  have i1: "run_insert_message w sid (str ''user'') msg (now_first amb) = Inr w1"
    using run_insert_message_ok [OF assms, of "str ''user''" msg "now_first amb"]
    by (simp add: w1_def u_def toWellFormed_str)
  have c2: "toWellFormed sid \<in> conversation_ids (db w2)"
    using assms by (simp add: w2_def w1_def conversation_ids_def)
  define a where "a = \<lparr>m_id = next_rowid (db w2), m_conversation_id = toWellFormed sid,
                       m_sender = str ''ai'', m_text = toWellFormed reply,
                       m_created_at = now_second amb\<rparr>"
  define w3 where "w3 = w2\<lparr>db := (db w2)\<lparr>messages := messages (db w2) @ [a],
                   seq := next_rowid (db w2)\<rparr>,
                 trace := trace w2 @ [MessageInserted sid (str ''ai'') reply]\<rparr>"
  have i2: "run_insert_message w2 sid (str ''ai'') reply (now_second amb) = Inr w3"
    using run_insert_message_ok [OF c2, of "str ''ai''" reply "now_second amb"]
    by (simp add: w3_def a_def toWellFormed_str)
  have c: "converse env amb w sid msg = (w3, Inr \<lparr>status = 200, body = ReplyBody reply sid\<rparr>)"
    using i1 r i2
    by (simp add: converse_def Let_def history_def [symmetric] w2_def [symmetric])
  show thesis
  proof (rule that [of w3 reply history u a])
    show "messages (db w3) = messages (db w) @ [u, a]"
      by (simp add: w3_def w2_def w1_def)
    show "trace w3 = trace w @ [MessageInserted sid (str ''user'') msg,
                           GenerateReplyCalled history msg,
                           MessageInserted sid (str ''ai'') reply]"
      by (simp add: w3_def w2_def w1_def)
    show "conversations (db w3) = conversations (db w)"
      by (simp add: w3_def w2_def w1_def)
    show "history = map chat_of (take 20 (sort_key m_created_at
                 (filter (\<lambda>m. m_conversation_id m = toWellFormed sid) (messages (db w) @ [u]))))"
      by (simp add: history_def select_history_def messages_of_def w1_def chat_of_def
          comp_def take_map)
  qed (simp_all add: c r u_def a_def)
qed

subsection \<open>The whole request\<close>

lemma create_conversation_ok:
  assumes "toWellFormed (randomUUID amb) \<notin> conversation_ids (db w)"
  shows "create_conversation amb w =
           Inr (w\<lparr>db := (db w)\<lparr>conversations := conversations (db w) @
                     [\<lparr>c_id = toWellFormed (randomUUID amb), c_created_at = now_first amb\<rparr>]\<rparr>,
                  trace := trace w @ [ConversationInserted (randomUUID amb)]\<rparr>, randomUUID amb)"
  using assms
  by (simp add: create_conversation_def run_insert_conversation_def insert_conversation_def)

lemma create_conversation_refused:
  assumes "toWellFormed (randomUUID amb) \<in> conversation_ids (db w)"
  shows "create_conversation amb w = Inl (SqliteError SQLITE_CONSTRAINT_PRIMARYKEY)"
  using assms
  by (simp add: create_conversation_def run_insert_conversation_def insert_conversation_def)

lemma resolve_session_ok:
  assumes "session_resolves amb w supplied"
  obtains w0 where
    "resolve_session amb w supplied = Inr (w0, session_of amb supplied)"
    "toWellFormed (session_of amb supplied) \<in> conversation_ids (db w0)"
    "messages (db w0) = messages (db w)"
    "conversation_ids (db w) \<subseteq> conversation_ids (db w0)"
    "trace w0 = trace w @ session_events amb supplied"
proof (cases "truthy supplied")
  case True
  then obtain sid where s: "supplied = Some sid" "sid \<noteq> []"
    by (auto simp add: truthy_def split: option.splits)
  show thesis
  proof (rule that [of w])
    show "resolve_session amb w supplied = Inr (w, session_of amb supplied)"
      using s by (simp add: resolve_session_def session_of_def)
    show "toWellFormed (session_of amb supplied) \<in> conversation_ids (db w)"
      using s assms by (simp add: session_resolves_def session_of_def)
    show "trace w = trace w @ session_events amb supplied"
      using s by (simp add: session_events_def)
  qed simp_all
next
  case False
  then have f: "supplied = None \<or> supplied = Some []"
    by (auto simp add: truthy_def split: option.splits)
  then have fresh: "toWellFormed (randomUUID amb) \<notin> conversation_ids (db w)"
    using assms by (auto simp add: session_resolves_def)
  define w0 where "w0 = w\<lparr>db := (db w)\<lparr>conversations := conversations (db w) @
                     [\<lparr>c_id = toWellFormed (randomUUID amb), c_created_at = now_first amb\<rparr>]\<rparr>,
                  trace := trace w @ [ConversationInserted (randomUUID amb)]\<rparr>"
  show thesis
  proof (rule that [of w0])
    show "resolve_session amb w supplied = Inr (w0, session_of amb supplied)"
      using f create_conversation_ok [OF fresh]
      by (auto simp add: resolve_session_def session_of_def w0_def)
    show "toWellFormed (session_of amb supplied) \<in> conversation_ids (db w0)"
      using f by (auto simp add: session_of_def w0_def conversation_ids_def)
    show "conversation_ids (db w) \<subseteq> conversation_ids (db w0)"
      by (auto simp add: w0_def conversation_ids_def)
    show "trace w0 = trace w @ session_events amb supplied"
      using f by (auto simp add: w0_def session_events_def)
  qed (simp_all add: w0_def)
qed

lemma post_ok:
  assumes "trim t \<noteq> []" "length (trim t) \<le> 4000" "session_resolves amb w supplied"
  obtains w' reply history u a where
    "post_chat_message env amb w \<lparr>message = JString t, sessionId = supplied\<rparr> =
       (w', \<lparr>status = 200, body = ReplyBody reply (session_of amb supplied)\<rparr>)"
    "generateReply env history (trim t) = Inr reply"
    "history = map chat_of (take 20 (sort_key m_created_at
                 (filter (\<lambda>m. m_conversation_id m = toWellFormed (session_of amb supplied))
                    (messages (db w) @ [u]))))"
    "messages (db w') = messages (db w) @ [u, a]"
    "toWellFormed (session_of amb supplied) \<in> conversation_ids (db w')"
    "conversation_ids (db w) \<subseteq> conversation_ids (db w')"
    "trace w' = trace w @ session_events amb supplied @
                  [MessageInserted (session_of amb supplied) (str ''user'') (trim t),
                   GenerateReplyCalled history (trim t),
                   MessageInserted (session_of amb supplied) (str ''ai'') reply]"
    "m_conversation_id u = toWellFormed (session_of amb supplied)" "m_sender u = str ''user''"
    "m_text u = toWellFormed (trim t)" "m_created_at u = now_first amb"
    "m_conversation_id a = toWellFormed (session_of amb supplied)" "m_sender a = str ''ai''"
    "m_text a = toWellFormed reply" "m_created_at a = now_second amb"
proof -
  obtain w0 where r:
    "resolve_session amb w supplied = Inr (w0, session_of amb supplied)"
    "toWellFormed (session_of amb supplied) \<in> conversation_ids (db w0)"
    "messages (db w0) = messages (db w)"
    "conversation_ids (db w) \<subseteq> conversation_ids (db w0)"
    "trace w0 = trace w @ session_events amb supplied"
    using assms(3) by (rule resolve_session_ok)
  obtain w' reply history u a where c:
    "converse env amb w0 (session_of amb supplied) (trim t) =
       (w', Inr \<lparr>status = 200, body = ReplyBody reply (session_of amb supplied)\<rparr>)"
    "generateReply env history (trim t) = Inr reply"
    "history = map chat_of (take 20 (sort_key m_created_at
                 (filter (\<lambda>m. m_conversation_id m = toWellFormed (session_of amb supplied))
                    (messages (db w0) @ [u]))))"
    "messages (db w') = messages (db w0) @ [u, a]"
    "conversations (db w') = conversations (db w0)"
    "trace w' = trace w0 @ [MessageInserted (session_of amb supplied) (str ''user'') (trim t),
                           GenerateReplyCalled history (trim t),
                           MessageInserted (session_of amb supplied) (str ''ai'') reply]"
    "m_conversation_id u = toWellFormed (session_of amb supplied)" "m_sender u = str ''user''"
    "m_text u = toWellFormed (trim t)" "m_created_at u = now_first amb"
    "m_conversation_id a = toWellFormed (session_of amb supplied)" "m_sender a = str ''ai''"
    "m_text a = toWellFormed reply" "m_created_at a = now_second amb"
    using r(2) by (rule converse_ok)
  have ids: "conversation_ids (db w') = conversation_ids (db w0)"
    using c(5) by (simp add: conversation_ids_def)
  show thesis
  proof (rule that [of w' reply history u a])
    show "post_chat_message env amb w \<lparr>message = JString t, sessionId = supplied\<rparr> =
       (w', \<lparr>status = 200, body = ReplyBody reply (session_of amb supplied)\<rparr>)"
      using assms(1,2) r(1) c(1)
      by (simp add: post_chat_message_def post_chat_message_try_def nullish_or_empty_def
          call_trim_def)
    show "trace w' = trace w @ session_events amb supplied @
                  [MessageInserted (session_of amb supplied) (str ''user'') (trim t),
                   GenerateReplyCalled history (trim t),
                   MessageInserted (session_of amb supplied) (str ''ai'') reply]"
      using c(6) r(5) by simp
  qed (use c r ids in simp_all)
qed

lemma post_unknown_session:
  assumes "trim t \<noteq> []" "length (trim t) \<le> 4000" "sid \<noteq> []"
    "toWellFormed sid \<notin> conversation_ids (db w)"
  shows "post_chat_message env amb w \<lparr>message = JString t, sessionId = Some sid\<rparr> =
           (w, \<lparr>status = 500, body = ErrorBody error_post_failed\<rparr>)"
  using assms
  by (simp add: post_chat_message_def post_chat_message_try_def nullish_or_empty_def
      call_trim_def resolve_session_def converse_def run_insert_message_refused)

subsection \<open>Reading a conversation back\<close>

lemma select_messages_sorted: "sorted (map he_created_at (select_messages d sid))"
  by (simp add: select_messages_def messages_of_def comp_def)

lemma select_messages_mset:
  "mset (select_messages d sid) =
     mset (map entry_of (filter (\<lambda>m. m_conversation_id m = toWellFormed sid) (messages d)))"
  by (simp add: select_messages_def messages_of_def entry_of_def [abs_def])

lemma select_messages_set:
  "set (select_messages d sid) =
     entry_of ` {m \<in> set (messages d). m_conversation_id m = toWellFormed sid}"
  by (auto simp add: select_messages_def messages_of_def entry_of_def [abs_def])

lemma select_conversation_unknown:
  "toWellFormed sid \<notin> conversation_ids d \<Longrightarrow> select_conversation d sid = None"
  by (force simp add: select_conversation_def conversation_ids_def find_None_iff)

lemma select_conversation_known:
  assumes "toWellFormed sid \<in> conversation_ids d"
  obtains conv where "select_conversation d sid = Some conv" "conv \<in> set (conversations d)"
    "c_id conv = toWellFormed sid"
proof -
  from assms have "\<exists>c. c \<in> set (conversations d) \<and> c_id c = toWellFormed sid"
    by (auto simp add: conversation_ids_def)
  then have "find (\<lambda>c. c_id c = toWellFormed sid) (conversations d) \<noteq> None"
    by (simp add: find_None_iff)
  then obtain conv where f: "find (\<lambda>c. c_id c = toWellFormed sid) (conversations d) = Some conv"
    by auto
  then have "conv \<in> set (conversations d)" "c_id conv = toWellFormed sid"
    by (auto simp add: find_Some_iff)
  with f show thesis by (intro that [of conv]) (simp_all add: select_conversation_def)
qed

lemma history_after:
  assumes "toWellFormed sid \<in> conversation_ids (db w)"
  obtains created where
    "get_chat_history w sid =
       (w, \<lparr>status = 200, body = HistoryBody sid created (select_messages (db w) sid)\<rparr>)"
proof -
  obtain conv where "select_conversation (db w) sid = Some conv"
    using assms by (rule select_conversation_known)
  then have "get_chat_history w sid =
       (w, \<lparr>status = 200, body = HistoryBody sid (c_created_at conv) (select_messages (db w) sid)\<rparr>)"
    by (simp add: get_chat_history_def)
  then show thesis by (rule that)
qed

subsection \<open>The concrete instances\<close>

lemma trim_hi: "trim (str '' hi '') = str ''hi''"
  by (simp add: trim_def trimmable_def isWhiteSpace_def isLineTerminator_def str_def)

lemma trim_hi_plain: "trim (str ''hi'') = str ''hi''"
  by (simp add: trim_def trimmable_def isWhiteSpace_def isLineTerminator_def str_def)

lemma sender_ai_not_user: "str ''ai'' \<noteq> str ''user''"
  by (simp add: str_def)

lemma fallbacks_name_support:
  "js_includes reply_key_missing (str ''support@spurstore.test'')"
  "js_includes reply_llm_error (str ''support@spurstore.test'')"
  by (simp_all add: reply_key_missing_def reply_llm_error_def str_def)

lemma no_content_names_nobody: "\<not> js_includes reply_no_content (str ''support'')"
  by (simp add: reply_no_content_def str_def)

lemma example_resolves:
  "session_resolves (clock t1 t2) empty_world None"
  "session_resolves (clock t1 t2) small_world (Some (str ''s1''))"
  "session_of (clock t1 t2) None = str ''u1''"
  "session_of (clock t1 t2) (Some (str ''s1'')) = str ''s1''"
  "session_events (clock t1 t2) None = [ConversationInserted (str ''u1'')]"
  "session_events (clock t1 t2) (Some (str ''s1'')) = []"
  by (simp_all add: session_resolves_def session_of_def session_events_def clock_def
      empty_world_def small_world_def conversation_ids_def toWellFormed_str)
     (simp_all add: str_def)

lemma offline_reply: "generateReply offline history userMessage = Inr reply_key_missing"
  by (simp add: generateReply_def offline_def)

lemma mute_reply: "generateReply mute_provider history userMessage = Inr []"
  by (simp add: generateReply_def mute_provider_def request_completion_def first_content_def
      truthy_def str_def)

section \<open>Input validation\<close>

text \<open>
  C6. A message whose trimmed text is empty is answered 400 "Message cannot be empty.";
  the server state (conversations, messages, log) is returned unchanged.
\<close>

theorem empty_message_rejected:
  "trim t = [] \<Longrightarrow>
   post_chat_message env amb w \<lparr>message = JString t, sessionId = supplied\<rparr> =
     (w, \<lparr>status = 400, body = ErrorBody error_empty\<rparr>)"
  by (simp add: post_chat_message_def post_chat_message_try_def nullish_or_empty_def call_trim_def)

theorem empty_message_rejected_witness:
  "trim [0x0020, 0x0009, 0x000A] = [] \<and>
   post_chat_message \<lparr>openai = None, OPENAI_API_KEY = None\<rparr>
       \<lparr>randomUUID = str ''u1'', now_first = 5, now_second = 6\<rparr>
       \<lparr>db = \<lparr>conversations = [], messages = [], seq = 0\<rparr>, trace = []\<rparr>
       \<lparr>message = JString [0x0020, 0x0009, 0x000A], sessionId = None\<rparr> =
     (\<lparr>db = \<lparr>conversations = [], messages = [], seq = 0\<rparr>, trace = []\<rparr>,
      \<lparr>status = 400, body = ErrorBody error_empty\<rparr>)"
proof -
  have h: "trim [0x0020, 0x0009, 0x000A] = []"
    by (simp add: trim_def trimmable_def isWhiteSpace_def isLineTerminator_def)
  show ?thesis using h empty_message_rejected [OF h] by simp
qed

text \<open>
  C7, amended. The length test is applied to the trimmed text: a message whose trimmed
  text has more than 4000 code units is answered 400 "Message is too long ..." and the
  state is returned unchanged.
\<close>

theorem long_message_rejected:
  "length (trim t) > 4000 \<Longrightarrow>
   post_chat_message env amb w \<lparr>message = JString t, sessionId = supplied\<rparr> =
     (w, \<lparr>status = 400, body = ErrorBody error_too_long\<rparr>)"
  by (auto simp add: post_chat_message_def post_chat_message_try_def nullish_or_empty_def call_trim_def)

theorem long_message_rejected_witness:
  "length (trim (0x0020 # replicate 4001 0x0061)) > 4000 \<and>
   post_chat_message \<lparr>openai = None, OPENAI_API_KEY = None\<rparr>
       \<lparr>randomUUID = str ''u1'', now_first = 5, now_second = 6\<rparr>
       \<lparr>db = \<lparr>conversations = [], messages = [], seq = 0\<rparr>, trace = []\<rparr>
       \<lparr>message = JString (0x0020 # replicate 4001 0x0061), sessionId = None\<rparr> =
     (\<lparr>db = \<lparr>conversations = [], messages = [], seq = 0\<rparr>, trace = []\<rparr>,
      \<lparr>status = 400, body = ErrorBody error_too_long\<rparr>)"
proof -
  have "trim (0x0020 # replicate 4001 (0x0061::code_unit)) = trim (replicate 4001 0x0061)"
    by (simp add: trim_def trimmable_def isWhiteSpace_def isLineTerminator_def)
  then have h: "length (trim (0x0020 # replicate 4001 (0x0061::code_unit))) > 4000"
    by (simp add: trim_replicate_a)
  show ?thesis using h long_message_rejected [OF h] by simp
qed

text \<open>
  C7 as stated fails: an input of 4001 code units whose trimmed text is one letter is
  accepted, answered 200, and both turns are stored.
\<close>

theorem padded_message_accepted:
  "length (0x0061 # replicate 4000 (0x0020::code_unit)) > 4000 \<and>
   status (snd (post_chat_message offline (clock 5 6) empty_world
       \<lparr>message = JString (0x0061 # replicate 4000 0x0020), sessionId = None\<rparr>)) = 200 \<and>
   map m_text (messages (db (fst (post_chat_message offline (clock 5 6) empty_world
       \<lparr>message = JString (0x0061 # replicate 4000 0x0020), sessionId = None\<rparr>)))) =
     [[0x0061], reply_key_missing]"
proof -
  have v: "trim (0x0061 # replicate 4000 0x0020) \<noteq> []"
    "length (trim (0x0061 # replicate 4000 0x0020)) \<le> 4000"
    by (simp_all add: trim_a_spaces)
  from v example_resolves(1) [of 5 6] obtain w' reply history u a where p:
    "post_chat_message offline (clock 5 6) empty_world
       \<lparr>message = JString (0x0061 # replicate 4000 0x0020), sessionId = None\<rparr> =
       (w', \<lparr>status = 200, body = ReplyBody reply (session_of (clock 5 6) None)\<rparr>)"
    "generateReply offline history (trim (0x0061 # replicate 4000 0x0020)) = Inr reply"
    "messages (db w') = messages (db empty_world) @ [u, a]"
    "m_text u = toWellFormed (trim (0x0061 # replicate 4000 0x0020))"
    "m_text a = toWellFormed reply"
    by (rule post_ok [where env = offline])
  from p(2) have "reply = reply_key_missing" by (simp add: offline_reply)
  moreover have "toWellFormed [0x0061] = [0x0061]"
    by (simp add: isHighSurrogate_def isLowSurrogate_def)
  ultimately show ?thesis
    using p by (simp add: empty_world_def trim_a_spaces toWellFormed_fallbacks)
qed

text \<open>
  C10. A body without a \<open>message\<close> field is answered exactly like the empty message:
  400 "Message cannot be empty.", state unchanged.
\<close>

theorem missing_message_rejected:
  "post_chat_message env amb w \<lparr>message = JUndefined, sessionId = supplied\<rparr> =
     (w, \<lparr>status = 400, body = ErrorBody error_empty\<rparr>) \<and>
   post_chat_message env amb w \<lparr>message = JUndefined, sessionId = supplied\<rparr> =
     post_chat_message env amb w \<lparr>message = JString [], sessionId = supplied\<rparr>"
  by (simp add: post_chat_message_def post_chat_message_try_def nullish_or_empty_def call_trim_def trim_def)


section \<open>The reply generator never raises\<close>

text \<open>
  C2, amended. \<open>generateReply\<close> returns a string on every path and never raises. Every
  failure path yields one of three fixed, non-empty texts: without a client or a key the
  "unavailable" text, on a rejected provider call or a response without \<open>choices\<close> the
  "ran into a problem" text, both naming support@spurstore.test, and on a first choice
  without content the "couldn't generate a response" text. The returned string is
  non-empty whenever the provider does not answer with the empty string as content.
\<close>

theorem generateReply_never_raises:
  "(\<exists>reply. generateReply env history userMessage = Inr reply) \<and>
   (generation_fails env history userMessage \<longrightarrow>
      generateReply env history userMessage \<in>
        Inr ` {reply_key_missing, reply_no_content, reply_llm_error}) \<and>
   (openai env = None \<or> \<not> truthy (OPENAI_API_KEY env) \<longrightarrow>
      generateReply env history userMessage = Inr reply_key_missing) \<and>
   (\<forall>client err. openai env = Some client \<and> truthy (OPENAI_API_KEY env) \<and>
        client (build_request history userMessage) = Inl err \<longrightarrow>
      generateReply env history userMessage = Inr reply_llm_error) \<and>
   (\<forall>client response err. openai env = Some client \<and> truthy (OPENAI_API_KEY env) \<and>
        client (build_request history userMessage) = Inr response \<and>
        first_content response = Inl err \<longrightarrow>
      generateReply env history userMessage = Inr reply_llm_error) \<and>
   (\<forall>client response. openai env = Some client \<and> truthy (OPENAI_API_KEY env) \<and>
        client (build_request history userMessage) = Inr response \<and>
        first_content response = Inr None \<longrightarrow>
      generateReply env history userMessage = Inr reply_no_content) \<and>
   (\<not> answers_empty_content env history userMessage \<longrightarrow>
      (\<exists>reply. generateReply env history userMessage = Inr reply \<and> reply \<noteq> [])) \<and>
   reply_key_missing \<noteq> [] \<and> reply_no_content \<noteq> [] \<and> reply_llm_error \<noteq> [] \<and>
   js_includes reply_key_missing (str ''support@spurstore.test'') \<and>
   js_includes reply_llm_error (str ''support@spurstore.test'')"
proof (intro conjI)
  show "\<exists>reply. generateReply env history userMessage = Inr reply"
    by (rule generateReply_returns)
  show "generation_fails env history userMessage \<longrightarrow>
      generateReply env history userMessage \<in>
        Inr ` {reply_key_missing, reply_no_content, reply_llm_error}"
    using generateReply_fallback by blast
  show "openai env = None \<or> \<not> truthy (OPENAI_API_KEY env) \<longrightarrow>
      generateReply env history userMessage = Inr reply_key_missing"
    by (auto simp add: generateReply_def split: option.splits)
  show "\<forall>client err. openai env = Some client \<and> truthy (OPENAI_API_KEY env) \<and>
        client (build_request history userMessage) = Inl err \<longrightarrow>
      generateReply env history userMessage = Inr reply_llm_error"
    by (simp add: generateReply_def request_completion_def)
  show "\<forall>client response err. openai env = Some client \<and> truthy (OPENAI_API_KEY env) \<and>
        client (build_request history userMessage) = Inr response \<and>
        first_content response = Inl err \<longrightarrow>
      generateReply env history userMessage = Inr reply_llm_error"
    by (simp add: generateReply_def request_completion_def)
  show "\<forall>client response. openai env = Some client \<and> truthy (OPENAI_API_KEY env) \<and>
        client (build_request history userMessage) = Inr response \<and>
        first_content response = Inr None \<longrightarrow>
      generateReply env history userMessage = Inr reply_no_content"
    by (simp add: generateReply_def request_completion_def)
  show "\<not> answers_empty_content env history userMessage \<longrightarrow>
      (\<exists>reply. generateReply env history userMessage = Inr reply \<and> reply \<noteq> [])"
    using generateReply_returns generateReply_nonempty by blast
qed (simp_all add: fallbacks_nonempty fallbacks_name_support)

theorem generateReply_never_raises_witness:
  "generation_fails offline [] (str ''hi'') \<and>
   generateReply offline [] (str ''hi'') = Inr reply_key_missing \<and>
   generation_fails unreachable_provider [] (str ''hi'') \<and>
   generateReply unreachable_provider [] (str ''hi'') = Inr reply_llm_error \<and>
   generation_fails garbled_provider [] (str ''hi'') \<and>
   generateReply garbled_provider [] (str ''hi'') = Inr reply_llm_error \<and>
   generation_fails silent_provider [] (str ''hi'') \<and>
   generateReply silent_provider [] (str ''hi'') = Inr reply_no_content \<and>
   \<not> answers_empty_content silent_provider [] (str ''hi'') \<and>
   (\<exists>reply. generateReply silent_provider [] (str ''hi'') = Inr reply \<and> reply \<noteq> [])"
proof -
  have k: "truthy (Some (str ''sk-test''))"
    by (simp add: truthy_def str_def)
  have f: "generation_fails offline [] (str ''hi'')"
    "generation_fails unreachable_provider [] (str ''hi'')"
    "generation_fails garbled_provider [] (str ''hi'')"
    "generation_fails silent_provider [] (str ''hi'')"
    using k
    by (simp_all add: generation_fails_def offline_def unreachable_provider_def
        garbled_provider_def silent_provider_def first_content_def)
  have e: "\<not> answers_empty_content silent_provider [] (str ''hi'')"
    by (simp add: answers_empty_content_def silent_provider_def first_content_def)
  have p: "openai offline = None"
    "openai unreachable_provider = Some (\<lambda>req. Inl APIError)"
    "openai garbled_provider = Some (\<lambda>req. Inr \<lparr>choices = None\<rparr>)"
    "openai silent_provider = Some (\<lambda>req. Inr \<lparr>choices = Some []\<rparr>)"
    "truthy (OPENAI_API_KEY unreachable_provider)"
    "truthy (OPENAI_API_KEY garbled_provider)"
    "truthy (OPENAI_API_KEY silent_provider)"
    using k
    by (simp_all add: offline_def unreachable_provider_def garbled_provider_def
        silent_provider_def)
  have c: "first_content \<lparr>choices = None\<rparr> = Inl TypeError"
    "first_content \<lparr>choices = Some []\<rparr> = Inr None"
    by (simp_all add: first_content_def)
  note t = generateReply_never_raises [where history = "[]" and userMessage = "str ''hi''"]
  have "generateReply offline [] (str ''hi'') = Inr reply_key_missing"
    using t [of offline] p(1) by blast
  moreover have "generateReply unreachable_provider [] (str ''hi'') = Inr reply_llm_error"
    using t [of unreachable_provider] p(2,5) by blast
  moreover have "generateReply garbled_provider [] (str ''hi'') = Inr reply_llm_error"
    using t [of garbled_provider] p(3,6) c(1) by blast
  moreover have "generateReply silent_provider [] (str ''hi'') = Inr reply_no_content"
    using t [of silent_provider] p(4,7) c(2) by blast
  moreover have "\<exists>reply. generateReply silent_provider [] (str ''hi'') = Inr reply \<and> reply \<noteq> []"
    using t [of silent_provider] e by blast
  ultimately show ?thesis using f e by blast
qed

text \<open>
  C2 as stated fails twice: the reply for a response without content is a failure-path
  fallback that names no support contact at all; and when the provider answers with the
  empty string as content the returned string is empty.
\<close>

theorem fallback_without_contact:
  "generation_fails silent_provider [] (str ''hi'') \<and>
   generateReply silent_provider [] (str ''hi'') = Inr reply_no_content \<and>
   \<not> js_includes reply_no_content (str ''support'') \<and>
   generateReply mute_provider [] (str ''hi'') = Inr []"
proof -
  have "generation_fails silent_provider [] (str ''hi'')"
    by (simp add: generation_fails_def silent_provider_def first_content_def truthy_def str_def)
  moreover have "generateReply silent_provider [] (str ''hi'') = Inr reply_no_content"
    by (simp add: generateReply_def request_completion_def silent_provider_def
        first_content_def truthy_def str_def)
  ultimately show ?thesis
    by (simp add: no_content_names_nobody mute_reply)
qed

section \<open>Appending and reading back\<close>

text \<open>
  C5. Appending a message under an identifier that names no stored conversation fails with
  the foreign-key constraint error; under a stored conversation it succeeds, appends
  exactly that row and returns its new, unused row identifier. The handler does not create
  a conversation for a supplied identifier, so a valid message sent with an unknown one
  meets that error and is answered 500, the state unchanged. Identifiers and texts are
  taken as the store keeps them.
\<close>

theorem append_message_foreign_key:
  "(toWellFormed sid \<notin> conversation_ids d \<longrightarrow>
      insert_message d sid sndr txt created = Inl (SqliteError SQLITE_CONSTRAINT_FOREIGNKEY)) \<and>
   (toWellFormed sid \<in> conversation_ids d \<longrightarrow>
      (\<exists>d' rowid. insert_message d sid sndr txt created = Inr (d', rowid) \<and>
         rowid \<notin> m_id ` set (messages d) \<and>
         messages d' = messages d @
           [\<lparr>m_id = rowid, m_conversation_id = toWellFormed sid, m_sender = toWellFormed sndr,
             m_text = toWellFormed txt, m_created_at = created\<rparr>] \<and>
         conversations d' = conversations d)) \<and>
   (trim t \<noteq> [] \<and> length (trim t) \<le> 4000 \<and> sid \<noteq> [] \<and>
    toWellFormed sid \<notin> conversation_ids (db w) \<longrightarrow>
      post_chat_message env amb w \<lparr>message = JString t, sessionId = Some sid\<rparr> =
        (w, \<lparr>status = 500, body = ErrorBody error_post_failed\<rparr>))"
  by (simp add: insert_message_def Let_def next_rowid_fresh post_unknown_session)

theorem append_message_foreign_key_witness:
  "toWellFormed (str ''zz'') \<notin> conversation_ids (db small_world) \<and>
   insert_message (db small_world) (str ''zz'') (str ''user'') (str ''hi'') 7 =
     Inl (SqliteError SQLITE_CONSTRAINT_FOREIGNKEY) \<and>
   toWellFormed (str ''s1'') \<in> conversation_ids (db small_world) \<and>
   (\<exists>d' rowid. insert_message (db small_world) (str ''s1'') (str ''user'') (str ''hi'') 7 =
       Inr (d', rowid) \<and> rowid \<notin> m_id ` set (messages (db small_world))) \<and>
   trim (str ''hi'') \<noteq> [] \<and> length (trim (str ''hi'')) \<le> 4000 \<and> str ''zz'' \<noteq> [] \<and>
   post_chat_message offline (clock 5 6) small_world
       \<lparr>message = JString (str ''hi''), sessionId = Some (str ''zz'')\<rparr> =
     (small_world, \<lparr>status = 500, body = ErrorBody error_post_failed\<rparr>)"
proof -
  have a: "toWellFormed (str ''zz'') \<notin> conversation_ids (db small_world)" "str ''zz'' \<noteq> []"
    by (simp_all add: toWellFormed_str) (simp_all add: small_world_def conversation_ids_def str_def)
  have b: "toWellFormed (str ''s1'') \<in> conversation_ids (db small_world)"
    by (simp add: toWellFormed_str) (simp add: small_world_def conversation_ids_def)
  have v: "trim (str ''hi'') \<noteq> []" "length (trim (str ''hi'')) \<le> 4000"
    by (simp_all add: trim_hi_plain) (simp_all add: str_def)
  show ?thesis
    using a b v
      append_message_foreign_key [of "str ''zz''" "db small_world" "str ''user''" "str ''hi''" 7
        "str ''hi''" small_world offline "clock 5 6"]
      append_message_foreign_key [of "str ''s1''" "db small_world" "str ''user''" "str ''hi''" 7]
    by blast
qed

text \<open>
  C8. The history lookup changes nothing. For an unknown identifier it answers 404
  "Conversation not found."; for a stored conversation it answers 200 with the identifier,
  the conversation's creation time and all its messages, none left out, in ascending order
  of their timestamps. The identifier is compared as the store keeps identifiers.
\<close>

theorem history_lookup:
  "fst (get_chat_history w sid) = w \<and>
   (toWellFormed sid \<notin> conversation_ids (db w) \<longrightarrow>
      snd (get_chat_history w sid) = \<lparr>status = 404, body = ErrorBody error_not_found\<rparr>) \<and>
   (toWellFormed sid \<in> conversation_ids (db w) \<longrightarrow>
      (\<exists>conv entries.
         conv \<in> set (conversations (db w)) \<and> c_id conv = toWellFormed sid \<and>
         snd (get_chat_history w sid) =
           \<lparr>status = 200, body = HistoryBody sid (c_created_at conv) entries\<rparr> \<and>
         sorted (map he_created_at entries) \<and>
         mset entries =
           mset (map entry_of
             (filter (\<lambda>m. m_conversation_id m = toWellFormed sid) (messages (db w))))))"
proof (intro conjI impI)
  show "fst (get_chat_history w sid) = w"
    by (simp add: get_chat_history_def split: option.split)
next
  assume "toWellFormed sid \<notin> conversation_ids (db w)"
  then show "snd (get_chat_history w sid) = \<lparr>status = 404, body = ErrorBody error_not_found\<rparr>"
    by (simp add: get_chat_history_def select_conversation_unknown)
next
  assume "toWellFormed sid \<in> conversation_ids (db w)"
  then obtain conv where c: "select_conversation (db w) sid = Some conv"
    "conv \<in> set (conversations (db w))" "c_id conv = toWellFormed sid"
    by (rule select_conversation_known)
  have "snd (get_chat_history w sid) =
          \<lparr>status = 200, body = HistoryBody sid (c_created_at conv) (select_messages (db w) sid)\<rparr>"
    using c(1) by (simp add: get_chat_history_def)
  with c(2,3) select_messages_sorted select_messages_mset
  show "\<exists>conv entries.
         conv \<in> set (conversations (db w)) \<and> c_id conv = toWellFormed sid \<and>
         snd (get_chat_history w sid) =
           \<lparr>status = 200, body = HistoryBody sid (c_created_at conv) entries\<rparr> \<and>
         sorted (map he_created_at entries) \<and>
         mset entries =
           mset (map entry_of
             (filter (\<lambda>m. m_conversation_id m = toWellFormed sid) (messages (db w))))"
    by blast
qed

theorem history_lookup_witness:
  "toWellFormed (str ''zz'') \<notin> conversation_ids (db small_world) \<and>
   snd (get_chat_history small_world (str ''zz'')) =
     \<lparr>status = 404, body = ErrorBody error_not_found\<rparr> \<and>
   toWellFormed (str ''s1'') \<in> conversation_ids (db small_world) \<and>
   (\<exists>conv entries.
         conv \<in> set (conversations (db small_world)) \<and> c_id conv = str ''s1'' \<and>
         snd (get_chat_history small_world (str ''s1'')) =
           \<lparr>status = 200, body = HistoryBody (str ''s1'') (c_created_at conv) entries\<rparr> \<and>
         sorted (map he_created_at entries) \<and>
         mset entries =
           mset (map entry_of (filter (\<lambda>m. m_conversation_id m = str ''s1'')
                  (messages (db small_world)))))"
proof -
  have a: "toWellFormed (str ''zz'') \<notin> conversation_ids (db small_world)"
    by (simp add: toWellFormed_str) (simp add: small_world_def conversation_ids_def str_def)
  have b: "toWellFormed (str ''s1'') \<in> conversation_ids (db small_world)"
    by (simp add: toWellFormed_str) (simp add: small_world_def conversation_ids_def)
  show ?thesis
    using a b history_lookup [of small_world "str ''zz''"] history_lookup [of small_world "str ''s1''"]
    by (simp add: toWellFormed_str)
qed

text \<open>
  C9, amended. For every valid message in a request whose session resolves, the request is
  answered 200 with the session identifier, and the history of that identifier, read from
  the resulting state, holds an entry of sender \<open>user\<close> whose text is the trimmed message
  with every unpaired surrogate replaced by U+FFFD: the trimmed message itself when it is
  well-formed UTF-16.
\<close>

theorem round_trip:
  assumes "trim t \<noteq> []" "length (trim t) \<le> 4000" "session_resolves amb w supplied"
  shows "\<exists>w' reply.
           post_chat_message env amb w \<lparr>message = JString t, sessionId = supplied\<rparr> =
             (w', \<lparr>status = 200, body = ReplyBody reply (session_of amb supplied)\<rparr>) \<and>
           (\<exists>created entries.
              get_chat_history w' (session_of amb supplied) =
                (w', \<lparr>status = 200,
                      body = HistoryBody (session_of amb supplied) created entries\<rparr>) \<and>
              (\<exists>e. e \<in> set entries \<and> he_sender e = str ''user'' \<and>
                   he_text e = toWellFormed (trim t)) \<and>
              (toWellFormed (trim t) = trim t \<longrightarrow>
                 (\<exists>e. e \<in> set entries \<and> he_sender e = str ''user'' \<and> he_text e = trim t)))"
proof -
  from assms obtain w' reply u a where p:
    "post_chat_message env amb w \<lparr>message = JString t, sessionId = supplied\<rparr> =
       (w', \<lparr>status = 200, body = ReplyBody reply (session_of amb supplied)\<rparr>)"
    "messages (db w') = messages (db w) @ [u, a]"
    "toWellFormed (session_of amb supplied) \<in> conversation_ids (db w')"
    "m_conversation_id u = toWellFormed (session_of amb supplied)" "m_sender u = str ''user''"
    "m_text u = toWellFormed (trim t)"
    by (rule post_ok [where env = env])
  obtain created where g: "get_chat_history w' (session_of amb supplied) =
       (w', \<lparr>status = 200, body = HistoryBody (session_of amb supplied) created
                (select_messages (db w') (session_of amb supplied))\<rparr>)"
    using p(3) by (rule history_after)
  have "entry_of u \<in> set (select_messages (db w') (session_of amb supplied))"
    using p(2,4) by (simp add: select_messages_set)
  moreover have "he_sender (entry_of u) = str ''user''"
    "he_text (entry_of u) = toWellFormed (trim t)"
    using p(5,6) by (simp_all add: entry_of_def)
  ultimately have "\<exists>e. e \<in> set (select_messages (db w') (session_of amb supplied)) \<and>
      he_sender e = str ''user'' \<and> he_text e = toWellFormed (trim t)"
    by blast
  with p(1) g show ?thesis by auto
qed

theorem round_trip_witness:
  "trim (str '' hi '') \<noteq> [] \<and> length (trim (str '' hi '')) \<le> 4000 \<and>
   session_resolves (clock 5 6) empty_world None \<and>
   toWellFormed (trim (str '' hi '')) = trim (str '' hi '') \<and>
   (\<exists>w' reply.
      post_chat_message offline (clock 5 6) empty_world
         \<lparr>message = JString (str '' hi ''), sessionId = None\<rparr> =
        (w', \<lparr>status = 200, body = ReplyBody reply (str ''u1'')\<rparr>) \<and>
      (\<exists>created entries.
           get_chat_history w' (str ''u1'') =
             (w', \<lparr>status = 200, body = HistoryBody (str ''u1'') created entries\<rparr>) \<and>
           (\<exists>e. e \<in> set entries \<and> he_sender e = str ''user'' \<and> he_text e = str ''hi'')))"
proof -
  have v: "trim (str '' hi '') \<noteq> []" "length (trim (str '' hi '')) \<le> 4000"
    by (simp_all add: trim_hi) (simp_all add: str_def)
  have s: "session_resolves (clock 5 6) empty_world None"
    by (rule example_resolves)
  have f: "toWellFormed (trim (str '' hi '')) = trim (str '' hi '')"
    by (simp add: trim_hi toWellFormed_str)
  show ?thesis
    using v s f round_trip [OF v s, of offline]
    by (simp add: trim_hi example_resolves toWellFormed_str)
qed

text \<open>
  C9 as stated fails: a message with an unpaired surrogate comes back with U+FFFD in its
  place, so no \<open>user\<close> entry of the history carries the submitted text; and a valid message
  sent with an identifier that names no conversation is answered 500 and leaves no entry.
\<close>

theorem surrogate_not_verbatim:
  "trim [0x0061, 0xD800, 0x0062] = [0x0061, 0xD800, 0x0062] \<and>
   snd (post_chat_message offline (clock 5 6) empty_world
          \<lparr>message = JString [0x0061, 0xD800, 0x0062], sessionId = None\<rparr>) =
     \<lparr>status = 200, body = ReplyBody reply_key_missing (str ''u1'')\<rparr> \<and>
   snd (get_chat_history
          (fst (post_chat_message offline (clock 5 6) empty_world
                  \<lparr>message = JString [0x0061, 0xD800, 0x0062], sessionId = None\<rparr>))
          (str ''u1'')) =
     \<lparr>status = 200,
      body = HistoryBody (str ''u1'') 5
        [\<lparr>he_sender = str ''user'', he_text = [0x0061, 0xFFFD, 0x0062], he_created_at = 5\<rparr>,
         \<lparr>he_sender = str ''ai'', he_text = reply_key_missing, he_created_at = 6\<rparr>]\<rparr> \<and>
   post_chat_message offline (clock 5 6) small_world
       \<lparr>message = JString (str ''hello''), sessionId = Some (str ''nobody'')\<rparr> =
     (small_world, \<lparr>status = 500, body = ErrorBody error_post_failed\<rparr>) \<and>
   snd (get_chat_history small_world (str ''nobody'')) =
     \<lparr>status = 404, body = ErrorBody error_not_found\<rparr>"
proof (intro conjI)
  show "trim [0x0061, 0xD800, 0x0062] = [0x0061, 0xD800, 0x0062]"
    by code_simp
  show "snd (post_chat_message offline (clock 5 6) empty_world
          \<lparr>message = JString [0x0061, 0xD800, 0x0062], sessionId = None\<rparr>) =
     \<lparr>status = 200, body = ReplyBody reply_key_missing (str ''u1'')\<rparr>"
    by code_simp
  show "snd (get_chat_history
          (fst (post_chat_message offline (clock 5 6) empty_world
                  \<lparr>message = JString [0x0061, 0xD800, 0x0062], sessionId = None\<rparr>))
          (str ''u1'')) =
     \<lparr>status = 200,
      body = HistoryBody (str ''u1'') 5
        [\<lparr>he_sender = str ''user'', he_text = [0x0061, 0xFFFD, 0x0062], he_created_at = 5\<rparr>,
         \<lparr>he_sender = str ''ai'', he_text = reply_key_missing, he_created_at = 6\<rparr>]\<rparr>"
    by code_simp
  show "post_chat_message offline (clock 5 6) small_world
       \<lparr>message = JString (str ''hello''), sessionId = Some (str ''nobody'')\<rparr> =
     (small_world, \<lparr>status = 500, body = ErrorBody error_post_failed\<rparr>)"
    by code_simp
  show "snd (get_chat_history small_world (str ''nobody'')) =
     \<lparr>status = 404, body = ErrorBody error_not_found\<rparr>"
    by code_simp
qed

section \<open>One exchange\<close>

text \<open>
  C3, amended. For every valid message whose session resolves (no identifier supplied and
  the drawn one unused, or the identifier of a stored conversation), whatever the generator
  does: the request is answered 200 with a reply; the log shows the user turn written
  before the generator is called and the reply written after it; when generation fails by
  a missing credential, a rejected call, a response without \<open>choices\<close> or a first choice
  without content, the reply is one of the three fixed non-empty fallback texts; and the
  history of the session, read afterwards, holds the user turn and the reply as an \<open>ai\<close>
  entry, their texts as the store returns them (the trimmed message and the reply, every
  unpaired surrogate replaced by U+FFFD).
\<close>

theorem failure_isolation:
  assumes "trim t \<noteq> []" "length (trim t) \<le> 4000" "session_resolves amb w supplied"
  shows "\<exists>w' reply history.
           post_chat_message env amb w \<lparr>message = JString t, sessionId = supplied\<rparr> =
             (w', \<lparr>status = 200, body = ReplyBody reply (session_of amb supplied)\<rparr>) \<and>
           trace w' = trace w @ session_events amb supplied @
             [MessageInserted (session_of amb supplied) (str ''user'') (trim t),
              GenerateReplyCalled history (trim t),
              MessageInserted (session_of amb supplied) (str ''ai'') reply] \<and>
           generateReply env history (trim t) = Inr reply \<and>
           (generation_fails env history (trim t) \<longrightarrow>
              reply \<in> {reply_key_missing, reply_no_content, reply_llm_error} \<and> reply \<noteq> []) \<and>
           (\<exists>created entries.
              get_chat_history w' (session_of amb supplied) =
                (w', \<lparr>status = 200,
                      body = HistoryBody (session_of amb supplied) created entries\<rparr>) \<and>
              (\<exists>e. e \<in> set entries \<and> he_sender e = str ''user'' \<and>
                   he_text e = toWellFormed (trim t)) \<and>
              (\<exists>e. e \<in> set entries \<and> he_sender e = str ''ai'' \<and>
                   he_text e = toWellFormed reply))"
proof -
  from assms obtain w' reply history u a where p:
    "post_chat_message env amb w \<lparr>message = JString t, sessionId = supplied\<rparr> =
       (w', \<lparr>status = 200, body = ReplyBody reply (session_of amb supplied)\<rparr>)"
    "generateReply env history (trim t) = Inr reply"
    "messages (db w') = messages (db w) @ [u, a]"
    "toWellFormed (session_of amb supplied) \<in> conversation_ids (db w')"
    "trace w' = trace w @ session_events amb supplied @
       [MessageInserted (session_of amb supplied) (str ''user'') (trim t),
        GenerateReplyCalled history (trim t),
        MessageInserted (session_of amb supplied) (str ''ai'') reply]"
    "m_conversation_id u = toWellFormed (session_of amb supplied)" "m_sender u = str ''user''"
    "m_text u = toWellFormed (trim t)"
    "m_conversation_id a = toWellFormed (session_of amb supplied)" "m_sender a = str ''ai''"
    "m_text a = toWellFormed reply"
    by (rule post_ok [where env = env])
  have fb: "generation_fails env history (trim t) \<longrightarrow>
              reply \<in> {reply_key_missing, reply_no_content, reply_llm_error} \<and> reply \<noteq> []"
  proof
    assume "generation_fails env history (trim t)"
    then have "generateReply env history (trim t) \<in>
                 Inr ` {reply_key_missing, reply_no_content, reply_llm_error}"
      by (rule generateReply_fallback)
    with p(2) have "reply \<in> {reply_key_missing, reply_no_content, reply_llm_error}" by auto
    then show "reply \<in> {reply_key_missing, reply_no_content, reply_llm_error} \<and> reply \<noteq> []"
      using fallbacks_nonempty by auto
  qed
  obtain created where g: "get_chat_history w' (session_of amb supplied) =
       (w', \<lparr>status = 200, body = HistoryBody (session_of amb supplied) created
                (select_messages (db w') (session_of amb supplied))\<rparr>)"
    using p(4) by (rule history_after)
  have "entry_of u \<in> set (select_messages (db w') (session_of amb supplied))"
       "entry_of a \<in> set (select_messages (db w') (session_of amb supplied))"
    using p(3,6,9) by (simp_all add: select_messages_set)
  moreover have "he_sender (entry_of u) = str ''user''"
    "he_text (entry_of u) = toWellFormed (trim t)"
    "he_sender (entry_of a) = str ''ai''" "he_text (entry_of a) = toWellFormed reply"
    using p(7,8,10,11) by (simp_all add: entry_of_def)
  ultimately have h: "\<exists>created entries.
              get_chat_history w' (session_of amb supplied) =
                (w', \<lparr>status = 200,
                      body = HistoryBody (session_of amb supplied) created entries\<rparr>) \<and>
              (\<exists>e. e \<in> set entries \<and> he_sender e = str ''user'' \<and>
                   he_text e = toWellFormed (trim t)) \<and>
              (\<exists>e. e \<in> set entries \<and> he_sender e = str ''ai'' \<and>
                   he_text e = toWellFormed reply)"
    using g by blast
  from p(1) p(5) p(2) fb h show ?thesis by blast
qed

theorem failure_isolation_witness:
  "trim (str '' hi '') \<noteq> [] \<and> length (trim (str '' hi '')) \<le> 4000 \<and>
   session_resolves (clock 5 6) small_world (Some (str ''s1'')) \<and>
   (\<exists>w' history.
      post_chat_message offline (clock 5 6) small_world
          \<lparr>message = JString (str '' hi ''), sessionId = Some (str ''s1'')\<rparr> =
        (w', \<lparr>status = 200, body = ReplyBody reply_key_missing (str ''s1'')\<rparr>) \<and>
      trace w' = [MessageInserted (str ''s1'') (str ''user'') (str ''hi''),
                  GenerateReplyCalled history (str ''hi''),
                  MessageInserted (str ''s1'') (str ''ai'') reply_key_missing] \<and>
      generation_fails offline history (str ''hi'') \<and>
      (\<exists>created entries.
              get_chat_history w' (str ''s1'') =
                (w', \<lparr>status = 200, body = HistoryBody (str ''s1'') created entries\<rparr>) \<and>
              (\<exists>e. e \<in> set entries \<and> he_sender e = str ''user'' \<and> he_text e = str ''hi'') \<and>
              (\<exists>e. e \<in> set entries \<and> he_sender e = str ''ai'' \<and> he_text e = reply_key_missing)))"
proof -
  have v: "trim (str '' hi '') \<noteq> []" "length (trim (str '' hi '')) \<le> 4000"
    by (simp_all add: trim_hi) (simp_all add: str_def)
  have s: "session_resolves (clock 5 6) small_world (Some (str ''s1''))"
    by (rule example_resolves)
  have c: "str ''s1'' \<noteq> []" "trace small_world = []"
    by (simp_all add: str_def small_world_def)
  have f: "\<And>history. generation_fails offline history (str ''hi'')"
    by (simp add: generation_fails_def offline_def)
  show ?thesis
    using v s failure_isolation [OF v s, of offline]
    by (simp add: trim_hi example_resolves offline_reply c f toWellFormed_str
        toWellFormed_fallbacks) blast
qed

text \<open>
  C3 as stated fails: a valid message sent with an identifier that names no conversation is
  answered 500, nothing is stored, and the history lookup answers 404; a message with an
  unpaired surrogate is not in the history as it was sent; and when the provider answers
  with the empty string as content the reply is empty.
\<close>

theorem unknown_session_loses_message:
  "trim (str ''hi'') \<noteq> [] \<and> length (trim (str ''hi'')) \<le> 4000 \<and>
   post_chat_message offline (clock 5 6) small_world
       \<lparr>message = JString (str ''hi''), sessionId = Some (str ''ghost'')\<rparr> =
     (small_world, \<lparr>status = 500, body = ErrorBody error_post_failed\<rparr>) \<and>
   snd (get_chat_history small_world (str ''ghost'')) =
     \<lparr>status = 404, body = ErrorBody error_not_found\<rparr> \<and>
   trim [0xDC00, 0x007A] = [0xDC00, 0x007A] \<and>
   map he_text (select_messages
       (db (fst (post_chat_message offline (clock 5 6) empty_world
                   \<lparr>message = JString [0xDC00, 0x007A], sessionId = None\<rparr>)))
       (str ''u1'')) =
     [[0xFFFD, 0x007A], reply_key_missing] \<and>
   snd (post_chat_message mute_provider (clock 5 6) empty_world
          \<lparr>message = JString (str ''hi''), sessionId = None\<rparr>) =
     \<lparr>status = 200, body = ReplyBody [] (str ''u1'')\<rparr>"
proof (intro conjI)
  show "trim (str ''hi'') \<noteq> []" "length (trim (str ''hi'')) \<le> 4000"
    by (simp_all add: trim_hi_plain) (simp_all add: str_def)
  show "post_chat_message offline (clock 5 6) small_world
       \<lparr>message = JString (str ''hi''), sessionId = Some (str ''ghost'')\<rparr> =
     (small_world, \<lparr>status = 500, body = ErrorBody error_post_failed\<rparr>)"
    by code_simp
  show "snd (get_chat_history small_world (str ''ghost'')) =
     \<lparr>status = 404, body = ErrorBody error_not_found\<rparr>"
    by code_simp
  show "trim [0xDC00, 0x007A] = [0xDC00, 0x007A]"
    by code_simp
  show "map he_text (select_messages
       (db (fst (post_chat_message offline (clock 5 6) empty_world
                   \<lparr>message = JString [0xDC00, 0x007A], sessionId = None\<rparr>)))
       (str ''u1'')) =
     [[0xFFFD, 0x007A], reply_key_missing]"
    by code_simp
  show "snd (post_chat_message mute_provider (clock 5 6) empty_world
          \<lparr>message = JString (str ''hi''), sessionId = None\<rparr>) =
     \<lparr>status = 200, body = ReplyBody [] (str ''u1'')\<rparr>"
    by code_simp
qed

text \<open>
  C4, amended. For every valid message whose session resolves, the request appends exactly
  two rows to the messages table, both of the resolved conversation: first the \<open>user\<close> row
  with the trimmed text as the store keeps it, then the \<open>ai\<close> row (the assistant's role).
  The second timestamp is not smaller than the first provided the second clock reading is
  not earlier than the first one.
\<close>

theorem two_rows_appended:
  assumes "trim t \<noteq> []" "length (trim t) \<le> 4000" "session_resolves amb w supplied"
    and "now_first amb \<le> now_second amb"
  shows "\<exists>u a.
           messages (db (fst (post_chat_message env amb w
               \<lparr>message = JString t, sessionId = supplied\<rparr>))) = messages (db w) @ [u, a] \<and>
           m_conversation_id u = toWellFormed (session_of amb supplied) \<and>
           m_conversation_id a = toWellFormed (session_of amb supplied) \<and>
           m_sender u = str ''user'' \<and> m_text u = toWellFormed (trim t) \<and>
           m_sender a = str ''ai'' \<and> role (chat_of a) = Assistant \<and>
           m_created_at u = now_first amb \<and> m_created_at a = now_second amb \<and>
           m_created_at u \<le> m_created_at a"
proof -
  from assms(1-3) obtain w' reply u a where p:
    "post_chat_message env amb w \<lparr>message = JString t, sessionId = supplied\<rparr> =
       (w', \<lparr>status = 200, body = ReplyBody reply (session_of amb supplied)\<rparr>)"
    "messages (db w') = messages (db w) @ [u, a]"
    "m_conversation_id u = toWellFormed (session_of amb supplied)" "m_sender u = str ''user''"
    "m_text u = toWellFormed (trim t)" "m_created_at u = now_first amb"
    "m_conversation_id a = toWellFormed (session_of amb supplied)" "m_sender a = str ''ai''"
    "m_created_at a = now_second amb"
    by (rule post_ok [where env = env])
  have "role (chat_of a) = Assistant"
    using p(8) by (simp add: chat_of_def to_chat_message_def sender_ai_not_user)
  moreover have "m_created_at u \<le> m_created_at a"
    using p(6,9) assms(4) by simp
  ultimately show ?thesis using p by auto
qed

theorem two_rows_appended_witness:
  "trim (str '' hi '') \<noteq> [] \<and> length (trim (str '' hi '')) \<le> 4000 \<and>
   session_resolves (clock 5 6) empty_world None \<and>
   now_first (clock 5 6) \<le> now_second (clock 5 6) \<and>
   (\<exists>u a.
      messages (db (fst (post_chat_message silent_provider (clock 5 6) empty_world
               \<lparr>message = JString (str '' hi ''), sessionId = None\<rparr>))) = [u, a] \<and>
      m_conversation_id u = str ''u1'' \<and> m_conversation_id a = str ''u1'' \<and>
      m_sender u = str ''user'' \<and> m_text u = str ''hi'' \<and>
      m_sender a = str ''ai'' \<and> role (chat_of a) = Assistant \<and>
      m_created_at u \<le> m_created_at a)"
proof -
  have v: "trim (str '' hi '') \<noteq> []" "length (trim (str '' hi '')) \<le> 4000"
    by (simp_all add: trim_hi) (simp_all add: str_def)
  have s: "session_resolves (clock 5 6) empty_world None"
    by (rule example_resolves)
  have c: "now_first (clock 5 6) \<le> now_second (clock 5 6)"
    by (simp add: clock_def)
  have e: "messages (db empty_world) = []"
    by (simp add: empty_world_def)
  show ?thesis
    using v s c two_rows_appended [OF v s c, of silent_provider]
    by (simp add: trim_hi example_resolves e toWellFormed_str) blast
qed

text \<open>
  C4 as stated fails: a valid message sent with an unknown identifier appends no row; and
  when the clock steps back between the two readings the reply row carries the smaller
  timestamp.
\<close>

theorem rows_not_always_appended:
  "trim (str ''hi'') \<noteq> [] \<and> length (trim (str ''hi'')) \<le> 4000 \<and>
   messages (db (fst (post_chat_message offline (clock 5 6) small_world
       \<lparr>message = JString (str ''hi''), sessionId = Some (str ''ghost'')\<rparr>))) =
     messages (db small_world) \<and>
   map m_created_at (messages (db (fst (post_chat_message offline (clock 9 4) empty_world
       \<lparr>message = JString (str ''hi''), sessionId = None\<rparr>)))) = [9, 4]"
proof (intro conjI)
  show "trim (str ''hi'') \<noteq> []" "length (trim (str ''hi'')) \<le> 4000"
    by (simp_all add: trim_hi_plain) (simp_all add: str_def)
  show "messages (db (fst (post_chat_message offline (clock 5 6) small_world
       \<lparr>message = JString (str ''hi''), sessionId = Some (str ''ghost'')\<rparr>))) =
     messages (db small_world)"
    by code_simp
  show "map m_created_at (messages (db (fst (post_chat_message offline (clock 9 4) empty_world
       \<lparr>message = JString (str ''hi''), sessionId = None\<rparr>)))) = [9, 4]"
    by code_simp
qed


section \<open>The context window\<close>

text \<open>
  C1. The context has at most ten entries, but they are not the most recent ones. The
  26th request of a conversation of 25 exchanges hands the generator the stored turns 11
  to 20 (the last ten of the twenty oldest rows): the echoing provider answers with exactly
  their texts. The ten most recent turns at that moment are turns 42 to 50 and the new
  user message.
\<close>

theorem context_window_stale:
  "List.map_filter generator_context
     (trace (fst (post_chat_message echo_provider (clock 51 52) long_conversation
        \<lparr>message = JString (str ''q''), sessionId = Some (str ''s1'')\<rparr>))) =
     [map chat_of (map stored_turn [11..<21])] \<and>
   snd (post_chat_message echo_provider (clock 51 52) long_conversation
        \<lparr>message = JString (str ''q''), sessionId = Some (str ''s1'')\<rparr>) =
     \<lparr>status = 200, body = ReplyBody (map of_nat [11..<21]) (str ''s1'')\<rparr> \<and>
   map chat_of (map stored_turn [11..<21]) \<noteq>
     slice_last 10 (map chat_of (map stored_turn [1..<51]) @ [\<lparr>role = User, content = str ''q''\<rparr>])"
proof (intro conjI)
  show "List.map_filter generator_context
     (trace (fst (post_chat_message echo_provider (clock 51 52) long_conversation
        \<lparr>message = JString (str ''q''), sessionId = Some (str ''s1'')\<rparr>))) =
     [map chat_of (map stored_turn [11..<21])]"
    by code_simp
  show "snd (post_chat_message echo_provider (clock 51 52) long_conversation
        \<lparr>message = JString (str ''q''), sessionId = Some (str ''s1'')\<rparr>) =
     \<lparr>status = 200, body = ReplyBody (map of_nat [11..<21]) (str ''s1'')\<rparr>"
    by code_simp
  show "map chat_of (map stored_turn [11..<21]) \<noteq>
     slice_last 10 (map chat_of (map stored_turn [1..<51]) @ [\<lparr>role = User, content = str ''q''\<rparr>])"
    by code_simp
qed

end
